theory Spec2Isabelle
  imports Main "HOL-Library.AList"
begin

section \<open>JavaScript strings\<close>

text \<open>
  A JavaScript string is a sequence of code units. The model is \<^typ>\<open>string\<close>: one
  \<^typ>\<open>char\<close> per code unit, for the code units \<open>0x00\<close> to \<open>0xFF\<close>. Arguments with a
  default value (\<open>delimiter = ','\<close>, \<open>type = 'csv'\<close>, \<open>maxRows = 50\<close>,
  \<open>basePrompt = ''\<close>) are taken after the default has been filled in.
\<close>

text \<open>The white space and line terminators that \<open>String.prototype.trim\<close> removes,
  among the code units of the model (tab, LF, VT, FF, CR, space, no-break space).\<close>

definition js_whitespace :: "char \<Rightarrow> bool" where
  "js_whitespace c \<longleftrightarrow>
     c = CHR 0x09 \<or> c = CHR 0x0A \<or> c = CHR 0x0B \<or> c = CHR 0x0C \<or> c = CHR 0x0D \<or>
     c = CHR 0x20 \<or> c = CHR 0xA0"

text \<open>\<open>s.trim()\<close>\<close>

definition js_trim :: "string \<Rightarrow> string" where
  "js_trim s = rev (dropWhile js_whitespace (rev (dropWhile js_whitespace s)))"

text \<open>\<open>s.split(sep)\<close> for a string separator: the pieces between the occurrences of
  \<open>sep\<close>, found from left to right, each search starting behind the previous occurrence.
  \<open>split_from sep cur rest\<close> has collected \<open>cur\<close> of the current piece and still reads
  \<open>rest\<close>. An empty separator splits into the single code units.\<close>

function split_from :: "string \<Rightarrow> string \<Rightarrow> string \<Rightarrow> string list" where
  "split_from sep cur [] = [cur]"
| "split_from sep cur (c # cs) =
     (if sep \<noteq> [] \<and> take (length sep) (c # cs) = sep
      then cur # split_from sep [] (drop (length sep) (c # cs))
      else split_from sep (cur @ [c]) cs)"
  by pat_completeness auto
termination
  by (relation "measure (\<lambda>(sep, cur, rest). length rest)") auto

definition js_split :: "string \<Rightarrow> string \<Rightarrow> string list" where
  "js_split s sep = (if sep = [] then map (\<lambda>c. [c]) s else split_from sep [] s)"

text \<open>\<open>xs.join(sep)\<close> on an array of strings\<close>

fun js_join :: "string list \<Rightarrow> string \<Rightarrow> string" where
  "js_join [] sep = []"
| "js_join [x] sep = x"
| "js_join (x # y # ys) sep = x @ sep @ js_join (y # ys) sep"

text \<open>\<open>s.replace(/^"|"$/g, '')\<close>: the pattern matches a double quote at the very start
  and a double quote at the very end, each at most once and never the same code unit
  twice; both matches are deleted.\<close>

definition strip_quotes :: "string \<Rightarrow> string" where
  "strip_quotes s =
     (let s1 = (case s of [] \<Rightarrow> [] | c # cs \<Rightarrow> if c = CHR 0x22 then cs else s)
      in if s1 \<noteq> [] \<and> last s1 = CHR 0x22 then butlast s1 else s1)"

text \<open>The decimal digits of a natural number, as a template literal prints a length or
  an index.\<close>

fun dec :: "nat \<Rightarrow> string" where
  "dec n = (if n < 10 then [char_of (48 + n)] else dec (n div 10) @ [char_of (48 + n mod 10)])"

declare dec.simps [simp del]

section \<open>JavaScript values\<close>

text \<open>
  The values the functions receive and return. A Number is represented by its canonical
  rendering (what \<open>Number.prototype.toString\<close> prints for it, as \<open>0.1\<close>, \<open>16\<close>, \<open>NaN\<close>),
  which determines the Number up to the sign of zero; the code never computes with one.
  An object is the list of its own properties in creation order.
\<close>

datatype jsval =
    JUndefined
  | JNull
  | JBool bool
  | JNum string
  | JStr string
  | JArr "jsval list"
  | JObj "(string \<times> jsval) list"

text \<open>Errors are values. \<open>Error m\<close> is \<open>new Error(m)\<close>; \<open>TypeError\<close> is raised by the
  engine (its message differs between engines and is not modelled); \<open>SyntaxError m\<close> is
  what \<open>JSON.parse\<close> raises.\<close>

datatype js_error = Error string | TypeError | SyntaxError string

text \<open>\<open>obj[k] = v\<close> on an ordinary object: an existing own property keeps its place and
  takes the new value, a new property is created behind the others. The name
  \<open>__proto__\<close> is the accessor inherited from \<open>Object.prototype\<close>: the assignment
  calls its setter, which creates no own property (and, given a value that is neither an
  object nor \<open>null\<close>, does nothing at all).\<close>

definition set_prop :: "(string \<times> jsval) list \<Rightarrow> string \<Rightarrow> jsval \<Rightarrow> (string \<times> jsval) list" where
  "set_prop ps k v = (if k = ''__proto__'' then ps else AList.update k v ps)"

text \<open>The own property \<open>k\<close> of an object, if it has one.\<close>

definition own_prop :: "jsval \<Rightarrow> string \<Rightarrow> jsval option" where
  "own_prop obj k = (case obj of JObj ps \<Rightarrow> map_of ps k | _ \<Rightarrow> None)"

text \<open>An array index is the canonical decimal string of a number below \<open>2^32 - 1\<close>.\<close>

definition is_digit :: "char \<Rightarrow> bool" where
  "is_digit c \<longleftrightarrow> (48::nat) \<le> of_char c \<and> of_char c \<le> (57::nat)"

definition dec_value :: "string \<Rightarrow> int" where
  "dec_value s = foldl (\<lambda>n c. 10 * n + (of_char c - 48)) 0 s"

definition is_array_index :: "string \<Rightarrow> bool" where
  "is_array_index k \<longleftrightarrow>
     k \<noteq> [] \<and> list_all is_digit k \<and> (k = ''0'' \<or> hd k \<noteq> CHR ''0'') \<and>
     dec_value k < 4294967295"

text \<open>The order in which the engine enumerates own properties: array indices in ascending
  numeric order, then the other names in creation order.\<close>

definition own_order :: "(string \<times> 'a) list \<Rightarrow> (string \<times> 'a) list" where
  "own_order ps =
     sort_key (\<lambda>p. dec_value (fst p)) (filter (\<lambda>p. is_array_index (fst p)) ps) @
     filter (\<lambda>p. \<not> is_array_index (fst p)) ps"

section \<open>Parsing delimited text\<close>

text \<open>\<open>csvText.trim().split('\n')\<close>\<close>

definition csv_lines :: "string \<Rightarrow> string list" where
  "csv_lines csvText = js_split (js_trim csvText) ''\<newline>''"

text \<open>\<open>line.split(delimiter).map(v => v.trim().replace(/^"|"$/g, ''))\<close>, used for the
  header line and for every data line.\<close>

definition csv_fields :: "string \<Rightarrow> string \<Rightarrow> string list" where
  "csv_fields delimiter line = map (\<lambda>v. strip_quotes (js_trim v)) (js_split line delimiter)"

text \<open>\<open>const row = {}; headers.forEach((header, index) => { row[header] = values[index]; })\<close>\<close>

definition make_row :: "string list \<Rightarrow> string list \<Rightarrow> jsval" where
  "make_row headers vals =
     JObj (foldl (\<lambda>row (header, index). set_prop row header (JStr (vals ! index)))
             [] (zip headers [0..<length headers]))"

text \<open>The loop over the data lines; \<open>data\<close> is the array built so far.\<close>

fun parse_rows :: "string list \<Rightarrow> string \<Rightarrow> string list \<Rightarrow> jsval list \<Rightarrow> jsval list" where
  "parse_rows headers delimiter [] data = data"
| "parse_rows headers delimiter (line # rest) data =
     (let vals = csv_fields delimiter line
      in parse_rows headers delimiter rest
           (if length vals = length headers then data @ [make_row headers vals] else data))"

definition parseCSV :: "string \<Rightarrow> string \<Rightarrow> jsval list" where
  "parseCSV csvText delimiter =
     (case csv_lines csvText of
        [] \<Rightarrow> []
      | first # rest \<Rightarrow> parse_rows (csv_fields delimiter first) delimiter rest [])"

section \<open>Reading values\<close>

text \<open>\<open>v === undefined || v === null\<close>: reading a property of such a value, or
  destructuring it, raises a \<open>TypeError\<close>.\<close>

definition nullish :: "jsval \<Rightarrow> bool" where
  "nullish v \<longleftrightarrow> v = JUndefined \<or> v = JNull"

text \<open>\<open>v.k\<close> for a value that is neither \<open>undefined\<close> nor \<open>null\<close>, for the property names
  this code reads (\<open>title\<close>, \<open>labels\<close>, \<open>datasets\<close>, \<open>data\<close>, \<open>colors\<close>, \<open>label\<close>,
  \<open>color\<close>): an object yields its own property, and \<open>undefined\<close> without one; arrays
  and primitive values have none of these names.\<close>

definition get_prop :: "jsval \<Rightarrow> string \<Rightarrow> jsval" where
  "get_prop v k =
     (case v of
        JObj ps \<Rightarrow> (case map_of ps k of Some x \<Rightarrow> x | None \<Rightarrow> JUndefined)
      | _ \<Rightarrow> JUndefined)"

text \<open>Truthiness, as \<open>||\<close> tests it.\<close>

fun js_truthy :: "jsval \<Rightarrow> bool" where
  "js_truthy JUndefined = False"
| "js_truthy JNull = False"
| "js_truthy (JBool b) = b"
| "js_truthy (JNum s) = (s \<noteq> ''0'' \<and> s \<noteq> ''NaN'')"
| "js_truthy (JStr s) = (s \<noteq> [])"
| "js_truthy (JArr xs) = True"
| "js_truthy (JObj ps) = True"

text \<open>\<open>a || b\<close>\<close>

definition js_or :: "jsval \<Rightarrow> jsval \<Rightarrow> jsval" where
  "js_or a b = (if js_truthy a then a else b)"

text \<open>\<open>xs.map(f)\<close> with a callback that may raise: the first error ends the call.\<close>

fun js_map :: "('a \<Rightarrow> js_error + 'b) \<Rightarrow> 'a list \<Rightarrow> js_error + 'b list" where
  "js_map f [] = Inr []"
| "js_map f (x # xs) =
     (case f x of
        Inl e \<Rightarrow> Inl e
      | Inr y \<Rightarrow> (case js_map f xs of Inl e \<Rightarrow> Inl e | Inr ys \<Rightarrow> Inr (y # ys)))"

text \<open>\<open>Object.keys(v)\<close>\<close>

definition Object_keys :: "jsval \<Rightarrow> js_error + string list" where
  "Object_keys v =
     (case v of
        JUndefined \<Rightarrow> Inl TypeError
      | JNull \<Rightarrow> Inl TypeError
      | JObj ps \<Rightarrow> Inr (map fst (own_order ps))
      | JArr xs \<Rightarrow> Inr (map dec [0..<length xs])
      | JStr s \<Rightarrow> Inr (map dec [0..<length s])
      | _ \<Rightarrow> Inr [])"

text \<open>\<open>xs.slice(0, end)\<close> for an integral \<open>end\<close>: a negative \<open>end\<close> counts from the
  end of the array.\<close>

definition js_slice0 :: "'a list \<Rightarrow> int \<Rightarrow> 'a list" where
  "js_slice0 xs end =
     (let len = int (length xs);
          final = (if end < 0 then max (len + end) 0 else min end len)
      in take (nat final) xs)"

text \<open>\<open>xs[i]\<close>, which is \<open>undefined\<close> outside the array.\<close>

definition js_index :: "jsval list \<Rightarrow> nat \<Rightarrow> jsval" where
  "js_index xs i = (if i < length xs then xs ! i else JUndefined)"

section \<open>Rendering values as text\<close>

text \<open>A hexadecimal digit, in lower case (JSON) and in upper case (URI escapes).\<close>

definition hex_lower :: "nat \<Rightarrow> char" where
  "hex_lower n = (if n < 10 then char_of (48 + n) else char_of (87 + n))"

definition hex_upper :: "nat \<Rightarrow> char" where
  "hex_upper n = (if n < 10 then char_of (48 + n) else char_of (55 + n))"

text \<open>\<open>JSON.stringify\<close> on a string (QuoteJSONString).\<close>

definition json_escape :: "char \<Rightarrow> string" where
  "json_escape c =
     (if c = CHR 0x08 then [CHR 0x5C, CHR ''b'']
      else if c = CHR 0x09 then [CHR 0x5C, CHR ''t'']
      else if c = CHR 0x0A then [CHR 0x5C, CHR ''n'']
      else if c = CHR 0x0C then [CHR 0x5C, CHR ''f'']
      else if c = CHR 0x0D then [CHR 0x5C, CHR ''r'']
      else if c = CHR 0x22 then [CHR 0x5C, CHR 0x22]
      else if c = CHR 0x5C then [CHR 0x5C, CHR 0x5C]
      else if (of_char c :: nat) < 32
        then [CHR 0x5C, CHR ''u'', CHR ''0'', CHR ''0'',
              hex_lower (of_char c div 16), hex_lower (of_char c mod 16)]
      else [c])"

definition json_quote :: "string \<Rightarrow> string" where
  "json_quote s = [CHR 0x22] @ concat (map json_escape s) @ [CHR 0x22]"

text \<open>The members of an object or the elements of an array between their brackets
  (the end of SerializeJSONObject and SerializeJSONArray): \<open>gap\<close> is the indentation
  unit, \<open>stepback\<close> the indentation of the enclosing level.\<close>

definition json_wrap :: "string \<Rightarrow> string \<Rightarrow> string \<Rightarrow> string \<Rightarrow> string list \<Rightarrow> string" where
  "json_wrap opening closing gap stepback partial =
     (if partial = [] then opening @ closing
      else if gap = [] then opening @ js_join partial '','' @ closing
      else opening @ ''\<newline>'' @ stepback @ gap @
           js_join partial ('',\<newline>'' @ stepback @ gap) @
           ''\<newline>'' @ stepback @ closing)"

text \<open>\<open>JSON.stringify(v, null, gap)\<close> (SerializeJSONProperty) at indentation
  \<open>indent\<close>; \<open>None\<close> is the result \<open>undefined\<close>. A member whose value gives \<open>undefined\<close>
  is left out of an object, and printed as \<open>null\<close> in an array.\<close>

fun json_ser :: "string \<Rightarrow> string \<Rightarrow> jsval \<Rightarrow> string option" where
  "json_ser gap indent JUndefined = None"
| "json_ser gap indent JNull = Some ''null''"
| "json_ser gap indent (JBool b) = Some (if b then ''true'' else ''false'')"
| "json_ser gap indent (JNum s) =
     Some (if s = ''NaN'' \<or> s = ''Infinity'' \<or> s = ''-Infinity'' then ''null'' else s)"
| "json_ser gap indent (JStr s) = Some (json_quote s)"
| "json_ser gap indent (JArr xs) =
     Some (json_wrap ''['' '']'' gap indent
       (map (\<lambda>x. case json_ser gap (indent @ gap) x of None \<Rightarrow> ''null'' | Some t \<Rightarrow> t) xs))"
| "json_ser gap indent (JObj ps) =
     Some (json_wrap ''{'' ''}'' gap indent
       (concat (map (\<lambda>p. case snd p of
                       None \<Rightarrow> []
                     | Some t \<Rightarrow> [json_quote (fst p) @ '':'' @ (if gap = [] then [] else '' '') @ t])
          (own_order (map (\<lambda>p. (fst p, json_ser gap (indent @ gap) (snd p))) ps)))))"

text \<open>\<open>JSON.stringify(v)\<close> and \<open>JSON.stringify(v, null, 2)\<close>\<close>

definition JSON_stringify :: "jsval \<Rightarrow> string option" where
  "JSON_stringify v = json_ser [] [] v"

definition JSON_stringify_2 :: "jsval \<Rightarrow> string option" where
  "JSON_stringify_2 v = json_ser ''  '' [] v"

text \<open>A value inside a template literal (ToString); \<open>undefined\<close> prints as such.\<close>

fun js_ToString :: "jsval \<Rightarrow> string" where
  "js_ToString JUndefined = ''undefined''"
| "js_ToString JNull = ''null''"
| "js_ToString (JBool b) = (if b then ''true'' else ''false'')"
| "js_ToString (JNum s) = s"
| "js_ToString (JStr s) = s"
| "js_ToString (JArr xs) =
     js_join (map (\<lambda>x. if x = JUndefined \<or> x = JNull then [] else js_ToString x) xs) '',''"
| "js_ToString (JObj ps) = ''[object Object]''"

definition template_text :: "string option \<Rightarrow> string" where
  "template_text r = (case r of None \<Rightarrow> ''undefined'' | Some t \<Rightarrow> t)"

text \<open>\<open>encodeURIComponent\<close>: letters, digits and \<open>- _ . ! ~ * ' ( )\<close> stay, every
  other code unit becomes the \<open>%XX\<close> escapes of its UTF-8 bytes.\<close>

definition uri_unreserved :: "char \<Rightarrow> bool" where
  "uri_unreserved c \<longleftrightarrow>
     (let n = (of_char c :: nat)
      in (65 \<le> n \<and> n \<le> 90) \<or> (97 \<le> n \<and> n \<le> 122) \<or> (48 \<le> n \<and> n \<le> 57) \<or>
         c \<in> set ''-_.!~*'()'')"

definition percent_byte :: "nat \<Rightarrow> string" where
  "percent_byte b = [CHR ''%'', hex_upper (b div 16), hex_upper (b mod 16)]"

definition uri_escape :: "char \<Rightarrow> string" where
  "uri_escape c =
     (let n = (of_char c :: nat)
      in if uri_unreserved c then [c]
         else if n < 128 then percent_byte n
         else percent_byte (192 + n div 64) @ percent_byte (128 + n mod 64))"

definition encodeURIComponent :: "string \<Rightarrow> string" where
  "encodeURIComponent s = concat (map uri_escape s)"

section \<open>Loading remote data\<close>

text \<open>
  The platform is a parameter: \<open>fetch\<close> gives, for a URL, either the error its promise
  is rejected with or a response; \<open>JSON.parse\<close> gives, for a text, either the error it
  raises or the decoded value. A rejected promise is the error it carries. What the
  functions write to the console is not part of the model.
\<close>

record response =
  ok :: bool
  status :: nat
  body :: "js_error + string"

text \<open>\<open>fetchRemoteData(url)\<close>: the \<open>catch\<close> block logs the error and raises it again.\<close>

definition fetchRemoteData :: "(string \<Rightarrow> js_error + response) \<Rightarrow> string \<Rightarrow> js_error + string" where
  "fetchRemoteData fetch url =
     (case fetch url of
        Inl e \<Rightarrow> Inl e
      | Inr r \<Rightarrow>
          if \<not> ok r then Inl (Error (''HTTP error! status: '' @ dec (status r)))
          else body r)"

text \<open>\<open>parseJSON(jsonText)\<close>: again the error is logged and raised again.\<close>

definition parseJSON :: "(string \<Rightarrow> js_error + jsval) \<Rightarrow> string \<Rightarrow> js_error + jsval" where
  "parseJSON JSON_parse jsonText =
     (case JSON_parse jsonText of Inl e \<Rightarrow> Inl e | Inr v \<Rightarrow> Inr v)"

text \<open>\<open>loadRemoteData(url, type)\<close>: the text is fetched first, then the type is looked at.\<close>

definition loadRemoteData ::
  "(string \<Rightarrow> js_error + response) \<Rightarrow> (string \<Rightarrow> js_error + jsval) \<Rightarrow>
   string \<Rightarrow> string \<Rightarrow> js_error + jsval" where
  "loadRemoteData fetch JSON_parse url type =
     (case fetchRemoteData fetch url of
        Inl e \<Rightarrow> Inl e
      | Inr rawData \<Rightarrow>
          if type = ''csv'' then Inr (JArr (parseCSV rawData '',''))
          else if type = ''json'' then parseJSON JSON_parse rawData
          else Inl (Error (''Unsupported data type: '' @ type)))"

section \<open>Formatting data for the prompt\<close>

text \<open>One step of the \<open>forEach\<close> loop:
  \<open>formatted += `Row ${index + 1}: ${JSON.stringify(row)}\n`\<close>\<close>

definition row_line :: "nat \<Rightarrow> jsval \<Rightarrow> string" where
  "row_line index row =
     ''Row '' @ dec (index + 1) @ '': '' @ template_text (JSON_stringify row) @ ''\<newline>''"

text \<open>\<open>formatDataForAI(data, maxRows)\<close>. \<open>Object.keys(limitedData[0])\<close> raises a
  \<open>TypeError\<close> when the first shown row is \<open>undefined\<close> or \<open>null\<close>.\<close>

definition formatDataForAI :: "jsval \<Rightarrow> int \<Rightarrow> js_error + string" where
  "formatDataForAI data maxRows =
     (case data of
        JArr rows \<Rightarrow>
          if length rows = 0 then Inr ''No data available.''
          else
            (let limitedData = js_slice0 rows maxRows
             in case Object_keys (js_index limitedData 0) of
                  Inl e \<Rightarrow> Inl e
                | Inr headers \<Rightarrow>
                    Inr (foldl (\<lambda>formatted (row, index). formatted @ row_line index row)
                          (''Data Summary ('' @ dec (length rows) @ '' total rows, showing '' @
                             dec (length limitedData) @ ''):\<newline>\<newline>'' @
                           ''Columns: '' @ js_join headers '', '' @ ''\<newline>\<newline>'' @
                           ''Sample Data:\<newline>'')
                          (zip limitedData [0..<length limitedData])))
      | _ \<Rightarrow> Inr ''No data available.'')"

text \<open>The fixed text of the template in \<open>createDataContextPrompt\<close>, before and behind
  the data context.\<close>

definition prompt_intro :: string where
  "prompt_intro = ''\<newline>\<newline>You have access to the following dataset:\<newline>\<newline>''"

definition prompt_closing :: string where
  "prompt_closing = ''\<newline>\<newline>When answering questions, use this data to provide accurate and relevant responses. You can analyze trends, provide statistics, and answer specific questions about the data.''"

text \<open>\<open>createDataContextPrompt(data, basePrompt, maxRows)\<close>\<close>

definition createDataContextPrompt :: "jsval \<Rightarrow> string \<Rightarrow> int \<Rightarrow> js_error + string" where
  "createDataContextPrompt data basePrompt maxRows =
     (case (case data of
              JArr rows \<Rightarrow> formatDataForAI data maxRows
            | _ \<Rightarrow> Inr (template_text (JSON_stringify_2 data))) of
        Inl e \<Rightarrow> Inl e
      | Inr dataContext \<Rightarrow> Inr (basePrompt @ prompt_intro @ dataContext @ prompt_closing))"

section \<open>Chart configurations\<close>

text \<open>\<open>generateQuickChartUrl(config)\<close>\<close>

definition generateQuickChartUrl :: "jsval \<Rightarrow> string" where
  "generateQuickChartUrl config =
     ''https://quickchart.io/chart?c='' @
     encodeURIComponent (template_text (JSON_stringify config)) @
     ''&width=600&height=400''"

text \<open>The \<open>options\<close> object of a chart: the title and, where the chart has them, the
  legend and the scales.\<close>

definition title_plugin :: "jsval \<Rightarrow> string \<times> jsval" where
  "title_plugin title =
     (''title'', JObj [(''display'', JBool True), (''text'', title),
                      (''font'', JObj [(''size'', JNum ''16'')])])"

definition legend_plugin :: "string \<Rightarrow> string \<times> jsval" where
  "legend_plugin position =
     (''legend'', JObj [(''display'', JBool True), (''position'', JStr position)])"

definition y_from_zero :: "string \<times> jsval" where
  "y_from_zero = (''scales'', JObj [(''y'', JObj [(''beginAtZero'', JBool True)])])"

text \<open>The callbacks of \<open>datasets.map\<close>; reading a property of an \<open>undefined\<close> or
  \<open>null\<close> entry raises a \<open>TypeError\<close>.\<close>

definition line_series :: "jsval \<Rightarrow> js_error + jsval" where
  "line_series dataset =
     (if nullish dataset then Inl TypeError
      else Inr (JObj
        [(''label'', get_prop dataset ''label''),
         (''data'', get_prop dataset ''data''),
         (''borderColor'', js_or (get_prop dataset ''color'') (JStr ''rgb(75, 192, 192)'')),
         (''backgroundColor'',
            js_or (get_prop dataset ''color'') (JStr ''rgba(75, 192, 192, 0.2)'')),
         (''tension'', JNum ''0.1'')]))"

definition bar_series :: "jsval \<Rightarrow> js_error + jsval" where
  "bar_series dataset =
     (if nullish dataset then Inl TypeError
      else Inr (JObj
        [(''label'', get_prop dataset ''label''),
         (''data'', get_prop dataset ''data''),
         (''backgroundColor'',
            js_or (get_prop dataset ''color'') (JStr ''rgba(54, 162, 235, 0.5)'')),
         (''borderColor'', js_or (get_prop dataset ''color'') (JStr ''rgb(54, 162, 235)'')),
         (''borderWidth'', JNum ''1'')]))"

definition scatter_series :: "jsval \<Rightarrow> js_error + jsval" where
  "scatter_series dataset =
     (if nullish dataset then Inl TypeError
      else Inr (JObj
        [(''label'', get_prop dataset ''label''),
         (''data'', get_prop dataset ''data''),
         (''backgroundColor'', js_or (get_prop dataset ''color'') (JStr ''rgb(255, 99, 132)''))]))"

text \<open>\<open>datasets.map(f)\<close>: only an array has the method \<open>map\<close> among the values of the
  model; on anything else the call raises a \<open>TypeError\<close>.\<close>

definition map_datasets :: "(jsval \<Rightarrow> js_error + jsval) \<Rightarrow> jsval \<Rightarrow> js_error + jsval" where
  "map_datasets f datasets =
     (case datasets of
        JArr ds \<Rightarrow> (case js_map f ds of Inl e \<Rightarrow> Inl e | Inr ys \<Rightarrow> Inr (JArr ys))
      | _ \<Rightarrow> Inl TypeError)"

text \<open>\<open>createLineChart({ title, labels, datasets })\<close>: destructuring \<open>undefined\<close> or
  \<open>null\<close> raises a \<open>TypeError\<close>.\<close>

definition createLineChart :: "jsval \<Rightarrow> js_error + jsval" where
  "createLineChart args =
     (if nullish args then Inl TypeError
      else case map_datasets line_series (get_prop args ''datasets'') of
        Inl e \<Rightarrow> Inl e
      | Inr series \<Rightarrow> Inr (JObj
          [(''type'', JStr ''line''),
           (''data'', JObj [(''labels'', get_prop args ''labels''), (''datasets'', series)]),
           (''options'', JObj
              [(''responsive'', JBool True),
               (''plugins'', JObj [title_plugin (get_prop args ''title''), legend_plugin ''top'']),
               y_from_zero])]))"

definition createBarChart :: "jsval \<Rightarrow> js_error + jsval" where
  "createBarChart args =
     (if nullish args then Inl TypeError
      else case map_datasets bar_series (get_prop args ''datasets'') of
        Inl e \<Rightarrow> Inl e
      | Inr series \<Rightarrow> Inr (JObj
          [(''type'', JStr ''bar''),
           (''data'', JObj [(''labels'', get_prop args ''labels''), (''datasets'', series)]),
           (''options'', JObj
              [(''responsive'', JBool True),
               (''plugins'', JObj [title_plugin (get_prop args ''title''), legend_plugin ''top'']),
               y_from_zero])]))"

text \<open>The palette \<open>createPieChart\<close> uses when \<open>colors\<close> is falsy.\<close>

definition default_pie_colors :: "jsval" where
  "default_pie_colors = JArr
     [JStr ''rgba(255, 99, 132, 0.8)'',
      JStr ''rgba(54, 162, 235, 0.8)'',
      JStr ''rgba(255, 206, 86, 0.8)'',
      JStr ''rgba(75, 192, 192, 0.8)'',
      JStr ''rgba(153, 102, 255, 0.8)'']"

definition createPieChart :: "jsval \<Rightarrow> js_error + jsval" where
  "createPieChart args =
     (if nullish args then Inl TypeError
      else Inr (JObj
        [(''type'', JStr ''pie''),
         (''data'', JObj
            [(''labels'', get_prop args ''labels''),
             (''datasets'', JArr [JObj
                [(''data'', get_prop args ''data''),
                 (''backgroundColor'', js_or (get_prop args ''colors'') default_pie_colors)]])]),
         (''options'', JObj
            [(''responsive'', JBool True),
             (''plugins'', JObj [title_plugin (get_prop args ''title''), legend_plugin ''right''])])]))"

definition createScatterPlot :: "jsval \<Rightarrow> js_error + jsval" where
  "createScatterPlot args =
     (if nullish args then Inl TypeError
      else case map_datasets scatter_series (get_prop args ''datasets'') of
        Inl e \<Rightarrow> Inl e
      | Inr series \<Rightarrow> Inr (JObj
          [(''type'', JStr ''scatter''),
           (''data'', JObj [(''datasets'', series)]),
           (''options'', JObj
              [(''responsive'', JBool True),
               (''plugins'', JObj [title_plugin (get_prop args ''title'')]),
               (''scales'', JObj [(''x'', JObj [(''type'', JStr ''linear''),
                                               (''position'', JStr ''bottom'')])])])]))"

section \<open>Dispatching a function call\<close>

text \<open>The value returned after the \<open>switch\<close>: an object with the markup of the image
  and a caption.\<close>

definition chart_message :: "jsval \<Rightarrow> jsval \<Rightarrow> jsval" where
  \<open>chart_message config args =
     JObj
       [(''html'', JStr (''<div style="margin: 10px 0;">\<newline>      <img src="'' @
           generateQuickChartUrl config @ ''" alt="'' @ js_ToString (get_prop args ''title'') @
           ''" style="max-width: 100%; border-radius: 8px; box-shadow: 0 2px 8px rgba(0,0,0,0.1);" />\<newline>    </div>'')),
        (''text'', JStr (''Here'' @ [CHR 0x27] @ ''s your '' @ js_ToString (get_prop args ''title'')))]\<close>

text \<open>The \<open>name\<close> entries of the table \<open>chartFunctionDefinitions\<close>.\<close>

definition chart_function_names :: "string list" where
  "chart_function_names =
     [''create_line_chart'', ''create_bar_chart'', ''create_pie_chart'', ''create_scatter_plot'']"

text \<open>\<open>handleChartFunction(functionName, args)\<close>: the \<open>default\<close> branch of the
  \<open>switch\<close> returns a string at once.\<close>

definition handleChartFunction :: "string \<Rightarrow> jsval \<Rightarrow> js_error + jsval" where
  "handleChartFunction functionName args =
     (if functionName = ''create_line_chart'' then
        (case createLineChart args of Inl e \<Rightarrow> Inl e | Inr config \<Rightarrow> Inr (chart_message config args))
      else if functionName = ''create_bar_chart'' then
        (case createBarChart args of Inl e \<Rightarrow> Inl e | Inr config \<Rightarrow> Inr (chart_message config args))
      else if functionName = ''create_pie_chart'' then
        (case createPieChart args of Inl e \<Rightarrow> Inl e | Inr config \<Rightarrow> Inr (chart_message config args))
      else if functionName = ''create_scatter_plot'' then
        (case createScatterPlot args of Inl e \<Rightarrow> Inl e | Inr config \<Rightarrow> Inr (chart_message config args))
      else Inr (JStr (''Error: Unknown function '' @ functionName)))"

section \<open>Auxiliary notions for the properties\<close>

text \<open>\<open>config.data.datasets\<close>, the series of a chart configuration, and \<open>v[i]\<close> on an
  array.\<close>

definition series_of :: "jsval \<Rightarrow> jsval" where
  "series_of config = get_prop (get_prop config ''data'') ''datasets''"

definition js_elem :: "jsval \<Rightarrow> nat \<Rightarrow> jsval" where
  "js_elem v i = (case v of JArr xs \<Rightarrow> js_index xs i | _ \<Rightarrow> JUndefined)"

text \<open>The number of elements of an array.\<close>

definition array_length :: "jsval \<Rightarrow> nat" where
  "array_length v = (case v of JArr xs \<Rightarrow> length xs | _ \<Rightarrow> 0)"

text \<open>The shape \<open>{html: string, text: string}\<close> of the value returned for a chart.\<close>

definition is_render_payload :: "jsval \<Rightarrow> bool" where
  "is_render_payload v =
     (case v of
        JObj ps \<Rightarrow>
          (case (map_of ps ''html'', map_of ps ''text'') of
             (Some (JStr h), Some (JStr t)) \<Rightarrow> True
           | _ \<Rightarrow> False)
      | _ \<Rightarrow> False)"

text \<open>What a header name or a cell is, stated on the field itself. \<open>trimmed_to s t\<close>:
  \<open>t\<close> is \<open>s\<close> without the white space around it. \<open>unquoted_to t v\<close>: \<open>v\<close> is \<open>t\<close>
  without one double quote at its start and without one double quote at its end, each
  taken away where there is one, be it a pair or a single quote at one end only.
  \<open>field_value field v\<close>: \<open>v\<close> is the field trimmed and then unquoted in this way.\<close>

definition trimmed_to :: "string \<Rightarrow> string \<Rightarrow> bool" where
  "trimmed_to s t \<longleftrightarrow>
     (\<exists>a b. s = a @ t @ b \<and> list_all js_whitespace a \<and> list_all js_whitespace b \<and>
            (t = [] \<or> \<not> js_whitespace (hd t) \<and> \<not> js_whitespace (last t)))"

definition unquoted_to :: "string \<Rightarrow> string \<Rightarrow> bool" where
  "unquoted_to t v \<longleftrightarrow>
     (\<exists>p q. t = p @ v @ q \<and> (p = [] \<or> p = [CHR 0x22]) \<and> (q = [] \<or> q = [CHR 0x22]) \<and>
            (p = [] \<longrightarrow> t = [] \<or> hd t \<noteq> CHR 0x22) \<and>
            (q = [] \<longrightarrow> v = [] \<or> last v \<noteq> CHR 0x22))"

definition field_value :: "string \<Rightarrow> string \<Rightarrow> bool" where
  "field_value field v \<longleftrightarrow> (\<exists>t. trimmed_to field t \<and> unquoted_to t v)"

text \<open>Unquoting as the specification words it: one optional pair of surrounding double
  quotes is taken away, and a quote at one end only stays.\<close>

definition unquote_pair :: "string \<Rightarrow> string" where
  "unquote_pair s =
     (if 2 \<le> length s \<and> hd s = CHR 0x22 \<and> last s = CHR 0x22 then butlast (tl s) else s)"

text \<open>The names of the own properties after assigning to the names \<open>hs\<close> in turn, on an
  object whose own properties are named \<open>ks\<close>: a name that is already there keeps its
  place, \<open>__proto__\<close> adds nothing.\<close>

fun assigned_keys :: "string list \<Rightarrow> string list \<Rightarrow> string list" where
  "assigned_keys ks [] = ks"
| "assigned_keys ks (h # hs) =
     assigned_keys (if h = ''__proto__'' \<or> h \<in> set ks then ks else ks @ [h]) hs"

section \<open>Properties of the parser\<close>

lemma split_from_not_Nil: "split_from sep cur s \<noteq> []"
  by (induction sep cur s rule: split_from.induct) auto

lemma csv_lines_not_Nil: "csv_lines csvText \<noteq> []"
  by (simp add: csv_lines_def js_split_def split_from_not_Nil)

lemma parse_rows_filter:
  "parse_rows headers delimiter ls data =
     data @ map (make_row headers)
              (filter (\<lambda>vals. length vals = length headers) (map (csv_fields delimiter) ls))"
  by (induction ls arbitrary: data) (simp_all add: Let_def)

lemma parseCSV_rows:
  "parseCSV csvText delimiter =
     map (make_row (csv_fields delimiter (hd (csv_lines csvText))))
       (filter (\<lambda>vals. length vals = length (csv_fields delimiter (hd (csv_lines csvText))))
          (map (csv_fields delimiter) (tl (csv_lines csvText))))"
  using csv_lines_not_Nil [of csvText]
  by (cases "csv_lines csvText") (simp_all add: parseCSV_def parse_rows_filter)


subsection \<open>Rows built from distinct header names\<close>

lemma update_fresh: "k \<notin> fst ` set ps \<Longrightarrow> AList.update k v ps = ps @ [(k, v)]"
  by (induction ps) auto

lemma assign_distinct:
  "distinct (map fst acc @ hs) \<Longrightarrow> ''__proto__'' \<notin> set hs \<Longrightarrow> k + length hs \<le> length vals \<Longrightarrow>
   foldl (\<lambda>row (header, index). set_prop row header (JStr (vals ! index))) acc
         (zip hs [k..<k + length hs])
   = acc @ zip hs (map JStr (take (length hs) (drop k vals)))"
proof (induction hs arbitrary: acc k)
  case Nil
  then show ?case by simp
next
  case (Cons h hs)
  have fresh: "h \<notin> fst ` set acc" using Cons.prems(1) by auto
  have upt: "[k..<k + length (h # hs)] = k # [Suc k..<Suc k + length hs]"
    using upt_conv_Cons [of k "k + length (h # hs)"] by simp
  have step: "set_prop acc h (JStr (vals ! k)) = acc @ [(h, JStr (vals ! k))]"
    using Cons.prems(2) fresh by (auto simp add: set_prop_def update_fresh)
  have d: "distinct (map fst (acc @ [(h, JStr (vals ! k))]) @ hs)"
    using Cons.prems(1) by auto
  have k: "k < length vals" using Cons.prems(3) by simp
  have tk: "take (length (h # hs)) (drop k vals) = vals ! k # take (length hs) (drop (Suc k) vals)"
    using k by (simp add: Cons_nth_drop_Suc [symmetric])
  have "foldl (\<lambda>row (header, index). set_prop row header (JStr (vals ! index))) acc
          (zip (h # hs) [k..<k + length (h # hs)])
        = foldl (\<lambda>row (header, index). set_prop row header (JStr (vals ! index)))
            (acc @ [(h, JStr (vals ! k))]) (zip hs [Suc k..<Suc k + length hs])"
    unfolding upt by (simp add: step)
  also have "\<dots> = (acc @ [(h, JStr (vals ! k))]) @
                 zip hs (map JStr (take (length hs) (drop (Suc k) vals)))"
    using Cons.IH [OF d, of "Suc k"] Cons.prems(2,3) by simp
  also have "\<dots> = acc @ zip (h # hs) (map JStr (take (length (h # hs)) (drop k vals)))"
    unfolding tk by simp
  finally show ?case .
qed

lemma make_row_distinct:
  assumes "distinct headers" "''__proto__'' \<notin> set headers" "length vals = length headers"
  shows "make_row headers vals = JObj (zip headers (map JStr vals))"
  using assign_distinct [of "[]" headers 0 vals] assms by (simp add: make_row_def)


subsection \<open>The property names of a row\<close>

lemma map_fst_insort_key:
  "map fst (insort_key (\<lambda>p. g (fst p)) p ps) = insort_key g (fst p) (map fst ps)"
  by (induction ps) simp_all

lemma map_fst_sort_key:
  "map fst (sort_key (\<lambda>p. g (fst p)) ps) = sort_key g (map fst ps)"
  by (induction ps) (simp_all add: map_fst_insort_key)

lemma own_order_keys:
  "map fst (own_order ps) =
     sort_key dec_value (filter is_array_index (map fst ps)) @
     filter (\<lambda>k. \<not> is_array_index k) (map fst ps)"
  by (simp add: own_order_def map_fst_sort_key filter_map comp_def)

lemma assign_keys:
  "length hs = length is \<Longrightarrow>
   map fst (foldl (\<lambda>row (header, index). set_prop row header (f index)) acc (zip hs is))
   = assigned_keys (map fst acc) hs"
proof (induction hs "is" arbitrary: acc rule: list_induct2)
  case Nil
  then show ?case by simp
next
  case (Cons h hs i "is")
  have "map fst (set_prop acc h (f i)) =
          (if h = ''__proto__'' \<or> h \<in> set (map fst acc) then map fst acc else map fst acc @ [h])"
    by (simp add: set_prop_def update_keys)
  then show ?case using Cons.IH [of "set_prop acc h (f i)"] by simp
qed

lemma assigned_keys_set: "set (assigned_keys ks hs) = set ks \<union> (set hs - {''__proto__''})"
  by (induction ks hs rule: assigned_keys.induct) auto

lemma assigned_keys_distinct: "distinct ks \<Longrightarrow> distinct (assigned_keys ks hs)"
  by (induction ks hs rule: assigned_keys.induct) auto

lemma assigned_keys_fresh:
  "distinct (ks @ hs) \<Longrightarrow> ''__proto__'' \<notin> set hs \<Longrightarrow> assigned_keys ks hs = ks @ hs"
  by (induction ks hs rule: assigned_keys.induct) auto

lemma Object_keys_make_row:
  "Object_keys (make_row headers vals) =
     Inr (sort_key dec_value (filter is_array_index (assigned_keys [] headers)) @
          filter (\<lambda>k. \<not> is_array_index k) (assigned_keys [] headers))"
  using assign_keys [of headers "[0..<length headers]" "\<lambda>i. JStr (vals ! i)" "[]"]
  by (simp add: Object_keys_def make_row_def own_order_keys)

subsection \<open>Trimming and unquoting a field\<close>

text \<open>\<open>trim\<close> and the replacement of the pattern do to a field what \<open>field_value\<close>
  says, and nothing else does: the value of a field is unique.\<close>

lemma rev_dropWhile_takeWhile:
  "rev (dropWhile P (rev ys)) @ rev (takeWhile P (rev ys)) = ys"
proof -
  have "rev (dropWhile P (rev ys)) @ rev (takeWhile P (rev ys))
          = rev (takeWhile P (rev ys) @ dropWhile P (rev ys))"
    by (simp only: rev_append)
  also have "\<dots> = ys" by simp
  finally show ?thesis .
qed

lemma js_trim_decompose:
  "\<exists>a b. s = a @ js_trim s @ b \<and> list_all js_whitespace a \<and> list_all js_whitespace b"
proof (intro exI conjI)
  have "takeWhile js_whitespace s @ js_trim s @
          rev (takeWhile js_whitespace (rev (dropWhile js_whitespace s)))
        = takeWhile js_whitespace s @ dropWhile js_whitespace s"
    unfolding js_trim_def by (simp only: rev_dropWhile_takeWhile)
  then show "s = takeWhile js_whitespace s @ js_trim s @
          rev (takeWhile js_whitespace (rev (dropWhile js_whitespace s)))"
    by simp
  show "list_all js_whitespace (takeWhile js_whitespace s)"
    by (auto simp add: list_all_iff dest: set_takeWhileD)
  show "list_all js_whitespace (rev (takeWhile js_whitespace (rev (dropWhile js_whitespace s))))"
    by (auto simp add: list_all_iff dest: set_takeWhileD)
qed

lemma hd_rev_dropWhile:
  "rev (dropWhile P (rev ys)) \<noteq> [] \<Longrightarrow> \<not> P (hd ys) \<Longrightarrow>
   hd (rev (dropWhile P (rev ys))) = hd ys"
proof -
  assume n: "rev (dropWhile P (rev ys)) \<noteq> []"
  have "hd (rev (dropWhile P (rev ys)) @ rev (takeWhile P (rev ys)))
          = hd (rev (dropWhile P (rev ys)))"
    using n by (rule hd_append2)
  then show ?thesis by (simp only: rev_dropWhile_takeWhile)
qed

lemma js_trim_ends:
  "js_trim s = [] \<or> \<not> js_whitespace (hd (js_trim s)) \<and> \<not> js_whitespace (last (js_trim s))"
proof (cases "js_trim s = []")
  case True
  then show ?thesis by simp
next
  case False
  let ?u = "dropWhile js_whitespace s"
  have w: "dropWhile js_whitespace (rev ?u) \<noteq> []"
    using False unfolding js_trim_def by (simp only: rev_is_Nil_conv not_False_eq_True)
  have l: "\<not> js_whitespace (last (js_trim s))"
    unfolding js_trim_def using w hd_dropWhile [OF w] by (simp only: last_rev not_False_eq_True)
  have u: "?u \<noteq> []"
  proof
    assume e: "?u = []"
    have "dropWhile js_whitespace (rev ?u) = dropWhile js_whitespace (rev [])"
      by (simp only: e)
    then have "dropWhile js_whitespace (rev ?u) = []" by simp
    with w show False by (rule notE)
  qed
  have hu: "\<not> js_whitespace (hd ?u)" using u by (rule hd_dropWhile)
  have "hd (js_trim s) = hd ?u"
    unfolding js_trim_def using False hu unfolding js_trim_def by (rule hd_rev_dropWhile)
  with hu l show ?thesis by simp
qed

lemma dropWhile_all: "list_all P a \<Longrightarrow> dropWhile P (a @ ys) = dropWhile P ys"
  by (induction a) simp_all

lemma js_trim_of_parts:
  assumes a: "list_all js_whitespace a" and b: "list_all js_whitespace b"
    and t: "t = [] \<or> \<not> js_whitespace (hd t) \<and> \<not> js_whitespace (last t)"
  shows "js_trim (a @ t @ b) = t"
proof (cases "t = []")
  case True
  have "dropWhile js_whitespace (a @ b) = dropWhile js_whitespace b"
    using a by (rule dropWhile_all)
  also have "\<dots> = dropWhile js_whitespace (b @ [])" by (simp only: append_Nil2)
  also have "\<dots> = dropWhile js_whitespace []" using b by (rule dropWhile_all)
  finally have d: "dropWhile js_whitespace (a @ b) = []" by (simp only: dropWhile.simps)
  show ?thesis
    unfolding True js_trim_def by (simp only: append_Nil d rev.simps dropWhile.simps)
next
  case False
  then obtain x t' where xt: "t = x # t'" by (cases t) auto
  have nx: "\<not> js_whitespace x" using t xt by simp
  have 1: "dropWhile js_whitespace (a @ t @ b) = t @ b"
    using a nx by (simp add: xt dropWhile_all)
  have nl: "\<not> js_whitespace (last t)" using t False by simp
  obtain y r where yr: "rev t = y # r" using False by (cases "rev t") auto
  have "hd (rev t) = last t" using False by (simp add: hd_rev)
  then have ny: "\<not> js_whitespace y" using nl yr by simp
  have rb: "list_all js_whitespace (rev b)" using b by (simp add: list_all_iff)
  have "dropWhile js_whitespace (rev (t @ b)) = rev t"
    using rb ny by (simp add: yr dropWhile_all)
  then show ?thesis by (simp add: js_trim_def 1)
qed

lemma trimmed_to_iff [code]: "trimmed_to s t \<longleftrightarrow> t = js_trim s"
proof
  assume "trimmed_to s t"
  then obtain a b where "s = a @ t @ b" "list_all js_whitespace a" "list_all js_whitespace b"
    "t = [] \<or> \<not> js_whitespace (hd t) \<and> \<not> js_whitespace (last t)"
    unfolding trimmed_to_def by (elim exE conjE)
  then show "t = js_trim s" by (simp only: js_trim_of_parts)
next
  assume t: "t = js_trim s"
  obtain a b where "s = a @ js_trim s @ b" "list_all js_whitespace a" "list_all js_whitespace b"
    using js_trim_decompose [of s] by (elim exE conjE)
  then show "trimmed_to s t"
    unfolding trimmed_to_def t using js_trim_ends [of s] by (intro exI conjI)
qed


lemma strip_quotes_of_parts:
  assumes p: "p = [] \<or> p = [CHR 0x22]" and q: "q = [] \<or> q = [CHR 0x22]"
    and hp: "p = [] \<longrightarrow> p @ v @ q = [] \<or> hd (p @ v @ q) \<noteq> CHR 0x22"
    and hq: "q = [] \<longrightarrow> v = [] \<or> last v \<noteq> CHR 0x22"
  shows "strip_quotes (p @ v @ q) = v"
proof -
  have s1: "(case p @ v @ q of [] \<Rightarrow> [] | c # cs \<Rightarrow> if c = CHR 0x22 then cs else p @ v @ q) = v @ q"
    using p hp by (cases "v @ q") auto
  have "(if v @ q \<noteq> [] \<and> last (v @ q) = CHR 0x22 then butlast (v @ q) else v @ q) = v"
    using q hq by auto
  then show ?thesis unfolding strip_quotes_def Let_def s1 .
qed

lemma strip_tail:
  "(if s1 \<noteq> [] \<and> last s1 = c then butlast s1 else s1) @
   (if s1 \<noteq> [] \<and> last s1 = c then [c] else []) = s1"
proof (cases "s1 \<noteq> [] \<and> last s1 = c")
  case True
  then have n: "s1 \<noteq> []" and l: "last s1 = c" by simp_all
  from n have "butlast s1 @ [last s1] = s1" by (rule append_butlast_last_id)
  then have "butlast s1 @ [c] = s1" by (simp only: l)
  then show ?thesis using n l by simp
next
  case False
  then show ?thesis by auto
qed

lemma strip_quotes_decompose:
  "\<exists>p q. t = p @ strip_quotes t @ q \<and> (p = [] \<or> p = [CHR 0x22]) \<and> (q = [] \<or> q = [CHR 0x22]) \<and>
         (p = [] \<longrightarrow> t = [] \<or> hd t \<noteq> CHR 0x22) \<and>
         (q = [] \<longrightarrow> strip_quotes t = [] \<or> last (strip_quotes t) \<noteq> CHR 0x22)"
proof -
  let ?s1 = "case t of [] \<Rightarrow> [] | c # cs \<Rightarrow> if c = CHR 0x22 then cs else t"
  let ?p = "if t \<noteq> [] \<and> hd t = CHR 0x22 then [CHR 0x22] else []"
  let ?q = "if ?s1 \<noteq> [] \<and> last ?s1 = CHR 0x22 then [CHR 0x22] else []"
  have a: "t = ?p @ ?s1" by (cases t) auto
  have v: "strip_quotes t = (if ?s1 \<noteq> [] \<and> last ?s1 = CHR 0x22 then butlast ?s1 else ?s1)"
    by (simp add: strip_quotes_def Let_def)
  have b: "?s1 = strip_quotes t @ ?q" unfolding v by (rule strip_tail [symmetric])
  have "t = ?p @ strip_quotes t @ ?q" using a b by (metis (lifting))
  moreover have "?p = [] \<or> ?p = [CHR 0x22]" by simp
  moreover have "?q = [] \<or> ?q = [CHR 0x22]" by simp
  moreover have "?p = [] \<longrightarrow> t = [] \<or> hd t \<noteq> CHR 0x22" by simp
  moreover have "?q = [] \<longrightarrow> strip_quotes t = [] \<or> last (strip_quotes t) \<noteq> CHR 0x22"
    unfolding v by (simp split: if_splits)
  ultimately show ?thesis by blast
qed

lemma unquoted_to_iff [code]: "unquoted_to t v \<longleftrightarrow> v = strip_quotes t"
proof
  assume "unquoted_to t v"
  then obtain p q where "t = p @ v @ q" "p = [] \<or> p = [CHR 0x22]" "q = [] \<or> q = [CHR 0x22]"
    "p = [] \<longrightarrow> t = [] \<or> hd t \<noteq> CHR 0x22" "q = [] \<longrightarrow> v = [] \<or> last v \<noteq> CHR 0x22"
    unfolding unquoted_to_def by (elim exE conjE)
  then show "v = strip_quotes t" using strip_quotes_of_parts [of p q v] by simp
next
  assume "v = strip_quotes t"
  then show "unquoted_to t v"
    unfolding unquoted_to_def using strip_quotes_decompose [of t] by simp
qed

lemma field_value_iff [code]: "field_value field v \<longleftrightarrow> v = strip_quotes (js_trim field)"
  by (simp add: field_value_def trimmed_to_iff unquoted_to_iff)

lemma field_values_csv_fields:
  "list_all2 field_value (js_split line delimiter) names \<longleftrightarrow> names = csv_fields delimiter line"
  by (simp add: csv_fields_def field_value_iff [abs_def] list_all2_conv_all_nth list_eq_iff_nth_eq)
     auto

subsection \<open>Claims about \<open>parseCSV\<close>\<close>

lemmas csv_eval = parseCSV_def csv_lines_def js_split_def js_trim_def js_whitespace_def
  csv_fields_def strip_quotes_def make_row_def set_prop_def

text \<open>
  C2. A data line whose number of fields differs from the number of header fields is left
  out of the result, and nothing is raised: \<open>parseCSV\<close> has no error result, the trimmed
  text always has a first line, the header line, and the rows of the result are those of
  the data lines with as many fields as the header, in their order. The text
  \<open>a,b\n1,2,3\n4,5\<close> gives the single row \<open>{a: "4", b: "5"}\<close>.
\<close>

theorem parseCSV_drops_mismatched_lines:
  "csv_lines csvText \<noteq> [] \<and>
   parseCSV csvText delimiter =
     map (make_row (csv_fields delimiter (hd (csv_lines csvText))))
       (filter (\<lambda>vals. length vals = length (csv_fields delimiter (hd (csv_lines csvText))))
          (map (csv_fields delimiter) (tl (csv_lines csvText))))
   \<and> parseCSV ''a,b\<newline>1,2,3\<newline>4,5'' '','' = [JObj [(''a'', JStr ''4''), (''b'', JStr ''5'')]]"
proof (intro conjI)
  show "csv_lines csvText \<noteq> []"
    by (rule csv_lines_not_Nil)
  show "parseCSV csvText delimiter =
     map (make_row (csv_fields delimiter (hd (csv_lines csvText))))
       (filter (\<lambda>vals. length vals = length (csv_fields delimiter (hd (csv_lines csvText))))
          (map (csv_fields delimiter) (tl (csv_lines csvText))))"
    by (rule parseCSV_rows)
  show "parseCSV ''a,b\<newline>1,2,3\<newline>4,5'' '','' = [JObj [(''a'', JStr ''4''), (''b'', JStr ''5'')]]"
    by (simp add: csv_eval)
qed

text \<open>The cells of the rows, in terms of the functions of the code.\<close>

lemma parseCSV_cells:
  assumes lines: "csv_lines csvText = header_line # data_lines"
    and dist: "distinct (csv_fields delimiter header_line)"
    and proto: "''__proto__'' \<notin> set (csv_fields delimiter header_line)"
    and counts: "\<forall>line \<in> set data_lines.
                   length (js_split line delimiter) = length (js_split header_line delimiter)"
  shows "length (parseCSV csvText delimiter) = length data_lines \<and>
         (\<forall>j < length data_lines. \<forall>i < length (js_split header_line delimiter).
            own_prop (parseCSV csvText delimiter ! j) (csv_fields delimiter header_line ! i)
              = Some (JStr (strip_quotes (js_trim (js_split (data_lines ! j) delimiter ! i)))))"
proof -
  let ?hs = "csv_fields delimiter header_line"
  have len: "\<And>line. line \<in> set data_lines \<Longrightarrow> length (csv_fields delimiter line) = length ?hs"
    using counts by (simp add: csv_fields_def)
  have all: "filter (\<lambda>vals. length vals = length ?hs) (map (csv_fields delimiter) data_lines)
               = map (csv_fields delimiter) data_lines"
    using len by (simp add: filter_id_conv)
  have rows: "parseCSV csvText delimiter = map (\<lambda>line. make_row ?hs (csv_fields delimiter line)) data_lines"
    using parseCSV_rows [of csvText delimiter] by (simp add: lines all comp_def)
  have cell: "own_prop (parseCSV csvText delimiter ! j) (?hs ! i)
                = Some (JStr (strip_quotes (js_trim (js_split (data_lines ! j) delimiter ! i))))"
    if j: "j < length data_lines" and i: "i < length (js_split header_line delimiter)" for j i
  proof -
    let ?vs = "csv_fields delimiter (data_lines ! j)"
    have l: "length ?vs = length ?hs" using len j by simp
    have i': "i < length ?hs" using i by (simp add: csv_fields_def)
    have "parseCSV csvText delimiter ! j = JObj (zip ?hs (map JStr ?vs))"
      using j by (simp add: rows make_row_distinct [OF dist proto l])
    moreover have "map_of (zip ?hs (map JStr ?vs)) (?hs ! i) = Some (map JStr ?vs ! i)"
      using dist i' l by (intro map_of_zip_nth) simp_all
    moreover have "map JStr ?vs ! i = JStr (strip_quotes (js_trim (js_split (data_lines ! j) delimiter ! i)))"
      using i' l counts j by (simp add: csv_fields_def)
    ultimately show ?thesis by (simp add: own_prop_def)
  qed
  show ?thesis using cell by (simp add: rows)
qed

text \<open>
  C1, as amended. When the trimmed text splits into a header line and \<open>k\<close> data lines, the
  values of the header fields are the names \<open>names\<close>, pairwise distinct and none of them
  \<open>__proto__\<close>, and every data line has as many fields as there are names, then
  \<open>parseCSV\<close> returns exactly \<open>k\<close> rows, and row \<open>j\<close> has, under the \<open>i\<close>-th name, the
  value of field \<open>i\<close> of data line \<open>j\<close>. The value of a field is the field without the
  white space around it and then without a double quote at its start and without a
  double quote at its end, where there is one: a single quote at one end is taken away
  too, not only a surrounding pair.
\<close>

theorem parseCSV_well_formed_rows:
  assumes lines: "csv_lines csvText = header_line # data_lines"
    and names: "list_all2 field_value (js_split header_line delimiter) names"
    and dist: "distinct names"
    and proto: "''__proto__'' \<notin> set names"
    and counts: "\<forall>line \<in> set data_lines. length (js_split line delimiter) = length names"
  shows "length (parseCSV csvText delimiter) = length data_lines \<and>
         (\<forall>j < length data_lines. \<forall>i < length names.
            \<exists>v. field_value (js_split (data_lines ! j) delimiter ! i) v \<and>
                own_prop (parseCSV csvText delimiter ! j) (names ! i) = Some (JStr v))"
proof -
  have n: "names = csv_fields delimiter header_line"
    using names by (simp only: field_values_csv_fields)
  have l: "length names = length (js_split header_line delimiter)"
    by (simp add: n csv_fields_def)
  have c: "\<forall>line \<in> set data_lines.
             length (js_split line delimiter) = length (js_split header_line delimiter)"
    using counts by (simp only: l)
  from parseCSV_cells [OF lines dist [unfolded n] proto [unfolded n] c]
  show ?thesis unfolding n [symmetric] l [symmetric] by (simp add: field_value_iff)
qed

text \<open>The amended claim C1 at a text with blanks around fields, a quoted pair, and a
  data line \<open>"Jane,25"\<close> whose two fields have one quote each.\<close>

theorem parseCSV_well_formed_rows_witness:
  \<open>csv_lines ''name , "age"\<newline> "John" ,30\<newline>"Jane,25"\<newline>''
     = [''name , "age"'', '' "John" ,30'', ''"Jane,25"''] \<and>
   list_all2 field_value (js_split ''name , "age"'' '','') [''name'', ''age''] \<and>
   length (parseCSV ''name , "age"\<newline> "John" ,30\<newline>"Jane,25"\<newline>'' '','') = 2 \<and>
   own_prop (parseCSV ''name , "age"\<newline> "John" ,30\<newline>"Jane,25"\<newline>'' '','' ! 0) ''name''
     = Some (JStr ''John'') \<and>
   own_prop (parseCSV ''name , "age"\<newline> "John" ,30\<newline>"Jane,25"\<newline>'' '','' ! 1) ''name''
     = Some (JStr ''Jane'') \<and>
   own_prop (parseCSV ''name , "age"\<newline> "John" ,30\<newline>"Jane,25"\<newline>'' '','' ! 1) ''age''
     = Some (JStr ''25'')\<close>
proof -
  let ?text = \<open>''name , "age"\<newline> "John" ,30\<newline>"Jane,25"\<newline>''\<close>
  let ?rows = "parseCSV ?text '',''"
  have l: \<open>csv_lines ?text = ''name , "age"'' # ['' "John" ,30'', ''"Jane,25"'']\<close>
    by (simp add: csv_eval)
  have n: \<open>list_all2 field_value (js_split ''name , "age"'' '','') [''name'', ''age'']\<close>
    by (simp add: field_value_iff csv_eval)
  have d: "distinct [''name'', ''age'']" by simp
  have p: "''__proto__'' \<notin> set [''name'', ''age'']" by simp
  have c: \<open>\<forall>line \<in> set ['' "John" ,30'', ''"Jane,25"''].
             length (js_split line '','') = length [''name'', ''age'']\<close>
    by (simp add: csv_eval)
  have f: \<open>js_split '' "John" ,30'' '','' = ['' "John" '', ''30'']\<close>
          \<open>js_split ''"Jane,25"'' '','' = [''"Jane'', ''25"'']\<close>
    by (simp_all add: csv_eval)
  have v: \<open>strip_quotes (js_trim '' "John" '') = ''John''\<close>
          \<open>strip_quotes (js_trim ''"Jane'') = ''Jane''\<close>
          \<open>strip_quotes (js_trim ''25"'') = ''25''\<close>
    by (simp_all add: csv_eval)
  from parseCSV_well_formed_rows [OF l n d p c]
  have len: "length ?rows = 2"
    and cells: \<open>\<forall>j < 2. \<forall>i < 2. \<exists>v.
          field_value (js_split (['' "John" ,30'', ''"Jane,25"''] ! j) '','' ! i) v \<and>
          own_prop (?rows ! j) ([''name'', ''age''] ! i) = Some (JStr v)\<close>
    by simp_all
  from cells [rule_format, of 0 0] cells [rule_format, of 1 0] cells [rule_format, of 1 1]
  have "own_prop (?rows ! 0) ''name'' = Some (JStr ''John'')"
       "own_prop (?rows ! 1) ''name'' = Some (JStr ''Jane'')"
       "own_prop (?rows ! 1) ''age'' = Some (JStr ''25'')"
    by (auto simp add: f v field_value_iff)
  with l n len show ?thesis by simp
qed

text \<open>
  C1 as it was stated fails in two ways. When a header name occurs twice: in \<open>a,a\n1,2\<close>
  the header line and the data line have two fields each, and the only row has \<open>"2"\<close>,
  the last field, under the first header name, where the claim has \<open>"1"\<close>. When a field
  has a double quote at one end only: in \<open>a,b\n"x,5"\<close> the fields of the data line are
  \<open>"x\<close> and \<open>5"\<close>, which unquoting a surrounding pair leaves as they are, and the row
  has \<open>x\<close> and \<open>5\<close>.
\<close>

theorem parseCSV_rows_counterexample:
  \<open>csv_lines ''a,a\<newline>1,2'' = [''a,a'', ''1,2''] \<and>
   csv_fields '','' ''a,a'' = [''a'', ''a''] \<and>
   length (js_split ''1,2'' '','') = length (js_split ''a,a'' '','') \<and>
   strip_quotes (js_trim (js_split ''1,2'' '','' ! 0)) = ''1'' \<and>
   parseCSV ''a,a\<newline>1,2'' '','' = [JObj [(''a'', JStr ''2'')]] \<and>
   own_prop (parseCSV ''a,a\<newline>1,2'' '','' ! 0) (csv_fields '','' ''a,a'' ! 0) \<noteq> Some (JStr ''1'') \<and>
   csv_lines ''a,b\<newline>"x,5"'' = [''a,b'', ''"x,5"''] \<and>
   js_split ''a,b'' '','' = [''a'', ''b''] \<and>
   js_split ''"x,5"'' '','' = [''"x'', ''5"''] \<and>
   unquote_pair (js_trim ''"x'') = ''"x'' \<and>
   unquote_pair (js_trim ''5"'') = ''5"'' \<and>
   parseCSV ''a,b\<newline>"x,5"'' '','' = [JObj [(''a'', JStr ''x''), (''b'', JStr ''5'')]]\<close>
  by (simp add: csv_eval own_prop_def unquote_pair_def)

lemmas key_eval = Object_keys_def own_order_def is_array_index_def is_digit_def dec_value_def

text \<open>
  C9, as amended. All rows of one result have the same property names in the same order
  (what \<open>Object.keys\<close> gives): the names are pairwise distinct, they are the parsed header
  names other than \<open>__proto__\<close>, and they are the parsed header names in the order of the
  header line whenever these are pairwise distinct, none is \<open>__proto__\<close> and none is an
  array index. No row has a name that another row of the result lacks.
\<close>

theorem parseCSV_rows_share_keys:
  assumes lines: "csv_lines csvText = header_line # data_lines"
  shows "\<exists>keys. distinct keys \<and>
           set keys = set (csv_fields delimiter header_line) - {''__proto__''} \<and>
           (\<forall>row \<in> set (parseCSV csvText delimiter). Object_keys row = Inr keys) \<and>
           (distinct (csv_fields delimiter header_line) \<and>
            ''__proto__'' \<notin> set (csv_fields delimiter header_line) \<and>
            (\<forall>h \<in> set (csv_fields delimiter header_line). \<not> is_array_index h)
            \<longrightarrow> keys = csv_fields delimiter header_line)"
proof -
  let ?hs = "csv_fields delimiter header_line"
  let ?ks = "assigned_keys [] ?hs"
  let ?keys = "sort_key dec_value (filter is_array_index ?ks) @
               filter (\<lambda>k. \<not> is_array_index k) ?ks"
  have dk: "distinct ?ks" by (simp add: assigned_keys_distinct)
  have sk: "set ?ks = set ?hs - {''__proto__''}" by (simp add: assigned_keys_set)
  have d: "distinct ?keys" using dk by auto
  have s: "set ?keys = set ?hs - {''__proto__''}" using sk by auto
  have r: "\<forall>row \<in> set (parseCSV csvText delimiter). Object_keys row = Inr ?keys"
    using parseCSV_rows [of csvText delimiter] by (auto simp add: lines Object_keys_make_row)
  have e: "?keys = ?hs"
    if "distinct ?hs" "''__proto__'' \<notin> set ?hs" "\<forall>h \<in> set ?hs. \<not> is_array_index h"
  proof -
    have "?ks = ?hs" using that(1,2) assigned_keys_fresh [of "[]" ?hs] by simp
    then show ?thesis using that(3) by (simp add: filter_empty_conv filter_id_conv)
  qed
  show ?thesis using d s r e by blast
qed

text \<open>The amended claim C9 at the text \<open>name,age\nJohn,30\nJane,25\<close>.\<close>

theorem parseCSV_rows_share_keys_witness:
  "csv_lines ''name,age\<newline>John,30\<newline>Jane,25'' = [''name,age'', ''John,30'', ''Jane,25''] \<and>
   length (parseCSV ''name,age\<newline>John,30\<newline>Jane,25'' '','') = 2 \<and>
   map Object_keys (parseCSV ''name,age\<newline>John,30\<newline>Jane,25'' '','') =
     [Inr [''name'', ''age''], Inr [''name'', ''age'']]"
proof -
  let ?rows = "parseCSV ''name,age\<newline>John,30\<newline>Jane,25'' '',''"
  have l: "csv_lines ''name,age\<newline>John,30\<newline>Jane,25'' = ''name,age'' # [''John,30'', ''Jane,25'']"
    by (simp add: csv_eval)
  have f: "csv_fields '','' ''name,age'' = [''name'', ''age'']"
    by (simp add: csv_eval)
  have a: "\<forall>h \<in> set [''name'', ''age''] . \<not> is_array_index h"
    by (simp add: is_array_index_def is_digit_def)
  have n: "length ?rows = 2"
    by (simp add: csv_eval)
  from parseCSV_rows_share_keys [OF l, of "'',''"] a
  have "\<forall>row \<in> set ?rows. Object_keys row = Inr [''name'', ''age'']"
    unfolding f by auto
  then have "map Object_keys ?rows = replicate (length ?rows) (Inr [''name'', ''age''])"
    by (simp add: map_replicate_const [symmetric] cong: map_cong)
  then show ?thesis using l n by (simp add: numeral_2_eq_2)
qed

text \<open>
  C9 as it was stated has the property names be the parsed header names, in their order.
  With the header \<open>2,1\<close> the names come in the order \<open>1\<close>, \<open>2\<close> (array indices are
  enumerated first, in ascending order); with the header \<open>a,a\<close> there is one name for two
  header names; with the header \<open>__proto__,b\<close> the name \<open>__proto__\<close> is missing.
\<close>

theorem parseCSV_keys_counterexample:
  "csv_lines ''2,1\<newline>x,y'' = [''2,1'', ''x,y''] \<and>
   csv_fields '','' ''2,1'' = [''2'', ''1''] \<and>
   map Object_keys (parseCSV ''2,1\<newline>x,y'' '','') = [Inr [''1'', ''2'']] \<and>
   csv_lines ''a,a\<newline>1,2'' = [''a,a'', ''1,2''] \<and>
   csv_fields '','' ''a,a'' = [''a'', ''a''] \<and>
   map Object_keys (parseCSV ''a,a\<newline>1,2'' '','') = [Inr [''a'']] \<and>
   csv_lines ''__proto__,b\<newline>1,2'' = [''__proto__,b'', ''1,2''] \<and>
   csv_fields '','' ''__proto__,b'' = [''__proto__'', ''b''] \<and>
   map Object_keys (parseCSV ''__proto__,b\<newline>1,2'' '','') = [Inr [''b'']]"
  by (simp add: csv_eval key_eval)


section \<open>Properties of the context formatter\<close>

lemma foldl_append_concat:
  "foldl (\<lambda>formatted (row, index). formatted @ g index row) acc ps =
     acc @ concat (map (\<lambda>(row, index). g index row) ps)"
  by (induction ps arbitrary: acc) auto

lemma map_zip_upt:
  "map (\<lambda>(x, i). g i x) (zip xs [0..<length xs]) = map (\<lambda>i. g i (xs ! i)) [0..<length xs]"
  by (rule nth_equalityI) simp_all

lemma js_slice0_take:
  "0 \<le> n \<Longrightarrow> n \<le> int (length xs) \<Longrightarrow> js_slice0 xs n = take (nat n) xs"
  by (simp add: js_slice0_def Let_def min_def)

text \<open>
  When \<open>maxRows\<close> is at least 1 and below the number \<open>N\<close> of rows, and the first row has
  property names to list, the result states \<open>N\<close> total rows, showing \<open>maxRows\<close>, and ends
  with exactly \<open>maxRows\<close> row lines, numbered from 1, for the first \<open>maxRows\<close> rows in
  their order.
\<close>

lemma formatDataForAI_rows:
  assumes pos: "0 < maxRows" and less: "maxRows < int (length rows)"
    and keys: "Object_keys (rows ! 0) = Inr headers"
  shows "formatDataForAI (JArr rows) maxRows =
     Inr (''Data Summary ('' @ dec (length rows) @ '' total rows, showing '' @
            dec (nat maxRows) @ ''):\<newline>\<newline>'' @
          ''Columns: '' @ js_join headers '', '' @ ''\<newline>\<newline>'' @
          ''Sample Data:\<newline>'' @
          concat (map (\<lambda>i. ''Row '' @ dec (i + 1) @ '': '' @
                          template_text (JSON_stringify (rows ! i)) @ ''\<newline>'')
                    [0..<nat maxRows]))"
proof -
  let ?lim = "js_slice0 rows maxRows"
  have lim: "?lim = take (nat maxRows) rows"
    using pos less by (simp add: js_slice0_take)
  have len: "length ?lim = nat maxRows" using pos less by (simp add: lim)
  have first: "js_index ?lim 0 = rows ! 0"
    using pos less by (simp add: js_index_def lim)
  have ne: "length rows \<noteq> 0" using pos less by auto
  have "map (\<lambda>(row, index). row_line index row) (zip ?lim [0..<length ?lim])
          = map (\<lambda>i. row_line i (?lim ! i)) [0..<length ?lim]"
    by (rule map_zip_upt)
  also have "\<dots> = map (\<lambda>i. row_line i (rows ! i)) [0..<nat maxRows]"
    unfolding len by (rule map_cong) (simp_all add: lim)
  finally have lines: "map (\<lambda>(row, index). row_line index row) (zip ?lim [0..<length ?lim])
                 = map (\<lambda>i. row_line i (rows ! i)) [0..<nat maxRows]" .
  have fold: "foldl (\<lambda>formatted (row, index). formatted @ row_line index row) acc
                (zip ?lim [0..<nat maxRows])
              = acc @ concat (map (\<lambda>i. row_line i (rows ! i)) [0..<nat maxRows])" for acc
    using lines unfolding foldl_append_concat len by simp
  have ne': "(length rows = 0) = False" using ne by simp
  have "formatDataForAI (JArr rows) maxRows =
          Inr ((''Data Summary ('' @ dec (length rows) @ '' total rows, showing '' @
                  dec (nat maxRows) @ ''):\<newline>\<newline>'' @
                ''Columns: '' @ js_join headers '', '' @ ''\<newline>\<newline>'' @
                ''Sample Data:\<newline>'') @
               concat (map (\<lambda>i. row_line i (rows ! i)) [0..<nat maxRows]))"
    unfolding formatDataForAI_def Let_def
    by (simp only: jsval.case first keys sum.case ne' if_False fold len)
  then show ?thesis by (simp add: row_line_def)
qed

lemma dec_small:
  "dec (Suc 0) = ''1''" "dec 2 = ''2''" "dec (Suc (Suc 0)) = ''2''" "dec (Suc (Suc (Suc 0))) = ''3''"
  by code_simp+

text \<open>Three rows and \<open>maxRows = 2\<close>: the summary states 3 and 2, and has the lines
  \<open>Row 1\<close> and \<open>Row 2\<close> for the first two rows.\<close>

lemma formatDataForAI_rows_example:
  "formatDataForAI
     (JArr [JObj [(''a'', JStr ''1''), (''b'', JStr ''2'')],
            JObj [(''a'', JStr ''3''), (''b'', JStr ''4'')],
            JObj [(''a'', JStr ''5''), (''b'', JStr ''6'')]]) 2 =
   Inr (''Data Summary (3 total rows, showing 2):\<newline>\<newline>'' @
        ''Columns: a, b\<newline>\<newline>'' @
        ''Sample Data:\<newline>'' @
        ''Row 1: {'' @ json_quote ''a'' @ '':'' @ json_quote ''1'' @ '','' @
                      json_quote ''b'' @ '':'' @ json_quote ''2'' @ ''}\<newline>'' @
        ''Row 2: {'' @ json_quote ''a'' @ '':'' @ json_quote ''3'' @ '','' @
                      json_quote ''b'' @ '':'' @ json_quote ''4'' @ ''}\<newline>'')"
proof -
  let ?rows = "[JObj [(''a'', JStr ''1''), (''b'', JStr ''2'')],
            JObj [(''a'', JStr ''3''), (''b'', JStr ''4'')],
            JObj [(''a'', JStr ''5''), (''b'', JStr ''6'')]]"
  have k: "Object_keys (?rows ! 0) = Inr [''a'', ''b'']"
    by (simp add: key_eval)
  have u: "[0..<2] = [0, Suc 0]" by (simp add: upt_rec numeral_2_eq_2)
  show ?thesis
    using formatDataForAI_rows [of 2 ?rows "[''a'', ''b'']"] k
    by (simp add: u dec_small JSON_stringify_def template_text_def json_wrap_def
        own_order_def is_array_index_def is_digit_def)
qed

text \<open>
  C3. The claim covers \<open>maxRows = 0\<close> with any non-empty array (\<open>N > maxRows\<close>), where it
  asks for a summary with zero row lines. There \<open>limitedData\<close> is empty,
  \<open>limitedData[0]\<close> is \<open>undefined\<close>, and \<open>Object.keys\<close> raises a \<open>TypeError\<close>: no
  string is returned.
\<close>

theorem formatDataForAI_zero_maxRows:
  "formatDataForAI (JArr [JObj [(''a'', JStr ''1'')]]) 0 = Inl TypeError"
  by (simp add: formatDataForAI_def js_slice0_def js_index_def Object_keys_def)

text \<open>
  C7. For an input that is not a non-empty array (an empty array, or a value that is no
  array) the result is the string \<open>No data available.\<close>, whatever \<open>maxRows\<close> is.
\<close>

theorem formatDataForAI_no_data:
  "(\<forall>rows. data = JArr rows \<longrightarrow> rows = []) \<Longrightarrow>
   formatDataForAI data maxRows = Inr ''No data available.''"
  by (cases data) (simp_all add: formatDataForAI_def)

text \<open>C7 at \<open>formatDataForAI([], 50)\<close>, at \<open>null\<close> and at an object.\<close>

theorem formatDataForAI_no_data_witness:
  "formatDataForAI (JArr []) 50 = Inr ''No data available.'' \<and>
   formatDataForAI JNull 50 = Inr ''No data available.'' \<and>
   formatDataForAI (JObj [(''a'', JStr ''1'')]) 50 = Inr ''No data available.''"
  using formatDataForAI_no_data [of "JArr []" 50] formatDataForAI_no_data [of JNull 50]
    formatDataForAI_no_data [of "JObj [(''a'', JStr ''1'')]" 50]
  by simp

text \<open>
  C10. With an empty array as data, \<open>createDataContextPrompt\<close> takes the branch of
  \<open>formatDataForAI\<close>: the prompt carries \<open>No data available.\<close> between the fixed texts,
  and not \<open>[]\<close>, which \<open>JSON.stringify(data, null, 2)\<close> gives for the empty array.
\<close>

theorem createDataContextPrompt_empty_array:
  "createDataContextPrompt (JArr []) basePrompt maxRows =
     Inr (basePrompt @ prompt_intro @ ''No data available.'' @ prompt_closing) \<and>
   template_text (JSON_stringify_2 (JArr [])) = ''[]'' \<and>
   createDataContextPrompt (JArr []) basePrompt maxRows \<noteq>
     Inr (basePrompt @ prompt_intro @ ''[]'' @ prompt_closing)"
  by (simp add: createDataContextPrompt_def formatDataForAI_def template_text_def
      JSON_stringify_2_def json_wrap_def)

section \<open>Properties of the loader\<close>

text \<open>
  C6, as amended. \<open>loadRemoteData\<close> fetches first. When the fetch fails, its error is the
  result, whatever the type. When the fetch succeeds, the text goes to \<open>parseCSV\<close> for
  the type \<open>csv\<close> and to \<open>JSON.parse\<close> for the type \<open>json\<close>, whose result or error is
  returned as it is, and any other type gives the error
  \<open>Unsupported data type: \<close> followed by the type. An error of \<open>fetch\<close> is passed on
  unchanged.
\<close>

theorem loadRemoteData_routes:
  "(fetchRemoteData fetch url = Inl e \<longrightarrow>
      loadRemoteData fetch JSON_parse url type = Inl e) \<and>
   (fetchRemoteData fetch url = Inr rawData \<longrightarrow>
      (type = ''csv'' \<longrightarrow>
         loadRemoteData fetch JSON_parse url type = Inr (JArr (parseCSV rawData '',''))) \<and>
      (type = ''json'' \<longrightarrow>
         loadRemoteData fetch JSON_parse url type = JSON_parse rawData) \<and>
      (type \<noteq> ''csv'' \<and> type \<noteq> ''json'' \<longrightarrow>
         loadRemoteData fetch JSON_parse url type =
           Inl (Error (''Unsupported data type: '' @ type)))) \<and>
   (fetch url = Inl e \<longrightarrow> fetchRemoteData fetch url = Inl e)"
  by (auto simp add: loadRemoteData_def fetchRemoteData_def parseJSON_def split: sum.splits)


text \<open>The amended claim C6 for a successful fetch with each kind of type, and for a
  failed fetch.\<close>

theorem loadRemoteData_routes_witness:
  "loadRemoteData (\<lambda>url. Inr \<lparr>ok = True, status = 200, body = Inr ''a,b\<newline>1,2''\<rparr>)
     (\<lambda>t. Inl (SyntaxError ''Unexpected token a'')) ''https://example.com/d.csv'' ''csv''
     = Inr (JArr [JObj [(''a'', JStr ''1''), (''b'', JStr ''2'')]]) \<and>
   loadRemoteData (\<lambda>url. Inr \<lparr>ok = True, status = 200, body = Inr ''a,b\<newline>1,2''\<rparr>)
     (\<lambda>t. Inl (SyntaxError ''Unexpected token a'')) ''https://example.com/d.csv'' ''json''
     = Inl (SyntaxError ''Unexpected token a'') \<and>
   loadRemoteData (\<lambda>url. Inr \<lparr>ok = True, status = 200, body = Inr ''a,b\<newline>1,2''\<rparr>)
     (\<lambda>t. Inl (SyntaxError ''Unexpected token a'')) ''https://example.com/d.csv'' ''xml''
     = Inl (Error ''Unsupported data type: xml'') \<and>
   loadRemoteData (\<lambda>url. Inl TypeError)
     (\<lambda>t. Inl (SyntaxError ''Unexpected token a'')) ''https://example.com/d.csv'' ''csv''
     = Inl TypeError"
proof -
  let ?fetch = "\<lambda>url :: string. Inr \<lparr>ok = True, status = 200, body = Inr ''a,b\<newline>1,2''\<rparr> :: js_error + response"
  let ?parse = "\<lambda>t :: string. Inl (SyntaxError ''Unexpected token a'') :: js_error + jsval"
  let ?url = "''https://example.com/d.csv''"
  have f: "fetchRemoteData ?fetch ?url = Inr ''a,b\<newline>1,2''"
    by (simp add: fetchRemoteData_def)
  have g: "(\<lambda>url :: string. Inl TypeError :: js_error + response) ?url = Inl TypeError"
    by simp
  have g': "fetchRemoteData (\<lambda>url. Inl TypeError) ?url = Inl TypeError"
    by (simp add: fetchRemoteData_def)
  have p: "parseCSV ''a,b\<newline>1,2'' '','' = [JObj [(''a'', JStr ''1''), (''b'', JStr ''2'')]]"
    by (simp add: csv_eval)
  from loadRemoteData_routes [of ?fetch ?url TypeError ?parse "''csv''" "''a,b\<newline>1,2''"]
       loadRemoteData_routes [of ?fetch ?url TypeError ?parse "''json''" "''a,b\<newline>1,2''"]
       loadRemoteData_routes [of ?fetch ?url TypeError ?parse "''xml''" "''a,b\<newline>1,2''"]
       loadRemoteData_routes [of "\<lambda>url. Inl TypeError" ?url TypeError ?parse "''csv''" "''a,b\<newline>1,2''"]
       f g' p
  show ?thesis by simp
qed

text \<open>
  C6 as it was stated has every type other than \<open>csv\<close> and \<open>json\<close> fail with the
  unsupported-type error. With the type \<open>xml\<close> and a fetch that fails (a rejected
  request, or the status 404) the error of the fetch is the result.
\<close>

theorem loadRemoteData_unsupported_counterexample:
  "loadRemoteData (\<lambda>url. Inl TypeError) (\<lambda>t. Inr JNull) ''https://example.com/d.xml'' ''xml''
     = Inl TypeError \<and>
   loadRemoteData (\<lambda>url. Inr \<lparr>ok = False, status = 404, body = Inr ''Not Found''\<rparr>)
     (\<lambda>t. Inr JNull) ''https://example.com/d.xml'' ''xml''
     = Inl (Error ''HTTP error! status: 404'') \<and>
   Inl (Error ''HTTP error! status: 404'') \<noteq>
     (Inl (Error ''Unsupported data type: xml'') :: js_error + jsval)"
proof -
  have d: "dec 404 = ''404''" by code_simp
  show ?thesis by (simp add: loadRemoteData_def fetchRemoteData_def d)
qed

section \<open>Properties of the chart functions\<close>

lemmas chart_eval = series_of_def js_elem_def js_index_def get_prop_def js_or_def
  array_length_def nullish_def

lemma chart_message_payload: "is_render_payload (chart_message config args)"
  by (simp add: chart_message_def is_render_payload_def)

lemma handleChartFunction_pie:
  "\<not> nullish args \<Longrightarrow>
   \<exists>config. createPieChart args = Inr config \<and>
     handleChartFunction ''create_pie_chart'' args = Inr (chart_message config args) \<and>
     get_prop (chart_message config args) ''text'' =
       JStr (''Here'' @ [CHR 0x27] @ ''s your '' @ js_ToString (get_prop args ''title''))"
  by (simp add: handleChartFunction_def createPieChart_def chart_message_def get_prop_def)

lemma get_prop_JObj:
  "get_prop (JObj ps) k = (case map_of ps k of Some x \<Rightarrow> x | None \<Rightarrow> JUndefined)"
  by (simp add: get_prop_def)

lemma js_map_total:
  "\<forall>x \<in> set xs. f x = Inr (g x) \<Longrightarrow> js_map f xs = Inr (map g xs)"
  by (induction xs) simp_all

text \<open>
  C4, as amended. For a function name that is none of the four names of the table, and
  any arguments, \<open>handleChartFunction\<close> raises nothing and returns the plain string
  \<open>Error: Unknown function \<close> followed by the name; this string is not an object with
  \<open>html\<close> and \<open>text\<close>.
\<close>

theorem handleChartFunction_unknown:
  "functionName \<notin> set chart_function_names \<Longrightarrow>
   handleChartFunction functionName args = Inr (JStr (''Error: Unknown function '' @ functionName)) \<and>
   \<not> is_render_payload (JStr (''Error: Unknown function '' @ functionName))"
  by (simp add: handleChartFunction_def chart_function_names_def is_render_payload_def)

text \<open>The amended claim C4 at the name \<open>unknown_fn\<close>.\<close>

theorem handleChartFunction_unknown_witness:
  "''unknown_fn'' \<notin> set chart_function_names \<and>
   handleChartFunction ''unknown_fn'' (JObj []) = Inr (JStr ''Error: Unknown function unknown_fn'')"
proof -
  have n: "''unknown_fn'' \<notin> set chart_function_names"
    by (simp add: chart_function_names_def)
  from handleChartFunction_unknown [OF n, of "JObj []"] n show ?thesis by simp
qed

text \<open>
  C4 as it was stated has the result shaped as the payload \<open>{html, text}\<close>. For
  \<open>unknown_fn\<close> the result is a string, which has no property \<open>text\<close>.
\<close>

theorem handleChartFunction_payload_counterexample:
  "''unknown_fn'' \<notin> set chart_function_names \<and>
   handleChartFunction ''unknown_fn'' (JObj []) = Inr (JStr ''Error: Unknown function unknown_fn'') \<and>
   \<not> is_render_payload (JStr ''Error: Unknown function unknown_fn'') \<and>
   get_prop (JStr ''Error: Unknown function unknown_fn'') ''text'' = JUndefined"
  by (simp add: handleChartFunction_def chart_function_names_def is_render_payload_def get_prop_def)

text \<open>
  C5, as amended. When \<open>colors\<close> is absent, the only series of the pie chart carries the
  data as given and, as its colors, the fixed palette of five colors as it is, whatever
  the number of slices.
\<close>

theorem createPieChart_default_palette:
  "\<not> nullish args \<Longrightarrow> get_prop args ''colors'' = JUndefined \<Longrightarrow>
   \<exists>config. createPieChart args = Inr config \<and>
     get_prop (js_elem (series_of config) 0) ''data'' = get_prop args ''data'' \<and>
     get_prop (js_elem (series_of config) 0) ''backgroundColor'' = default_pie_colors \<and>
     array_length (get_prop (js_elem (series_of config) 0) ''backgroundColor'') = 5"
  by (simp add: createPieChart_def series_of_def js_elem_def js_index_def get_prop_def js_or_def
      default_pie_colors_def array_length_def)

text \<open>The amended claim C5 at a chart of two slices.\<close>

theorem createPieChart_default_palette_witness:
  "\<not> nullish (JObj [(''title'', JStr ''T''), (''labels'', JArr [JStr ''a'', JStr ''b'']),
                     (''data'', JArr [JNum ''1'', JNum ''2''])]) \<and>
   (\<exists>config. createPieChart (JObj [(''title'', JStr ''T''), (''labels'', JArr [JStr ''a'', JStr ''b'']),
                                     (''data'', JArr [JNum ''1'', JNum ''2''])]) = Inr config \<and>
      get_prop (js_elem (series_of config) 0) ''backgroundColor'' = default_pie_colors)"
proof -
  let ?args = "JObj [(''title'', JStr ''T''), (''labels'', JArr [JStr ''a'', JStr ''b'']),
                     (''data'', JArr [JNum ''1'', JNum ''2''])]"
  have n: "\<not> nullish ?args" by (simp add: nullish_def)
  have c: "get_prop ?args ''colors'' = JUndefined" by (simp add: get_prop_def)
  from createPieChart_default_palette [OF n c] n show ?thesis by blast
qed

text \<open>
  C5 as it was stated has the number of colors match the number of slices. For two
  slices and no \<open>colors\<close> the series carries all five colors of the palette.
\<close>

theorem createPieChart_palette_counterexample:
  "get_prop (JObj [(''title'', JStr ''T''), (''labels'', JArr [JStr ''a'', JStr ''b'']),
                   (''data'', JArr [JNum ''1'', JNum ''2''])]) ''colors'' = JUndefined \<and>
   array_length (get_prop (JObj [(''title'', JStr ''T''), (''labels'', JArr [JStr ''a'', JStr ''b'']),
                   (''data'', JArr [JNum ''1'', JNum ''2''])]) ''data'') = 2 \<and>
   map_sum id (\<lambda>config. get_prop (js_elem (series_of config) 0) ''backgroundColor'')
     (createPieChart (JObj [(''title'', JStr ''T''), (''labels'', JArr [JStr ''a'', JStr ''b'']),
                   (''data'', JArr [JNum ''1'', JNum ''2''])]))
     = Inr (JArr [JStr ''rgba(255, 99, 132, 0.8)'', JStr ''rgba(54, 162, 235, 0.8)'',
                  JStr ''rgba(255, 206, 86, 0.8)'', JStr ''rgba(75, 192, 192, 0.8)'',
                  JStr ''rgba(153, 102, 255, 0.8)''])"
  by (simp add: createPieChart_def chart_eval default_pie_colors_def)

text \<open>
  C8. For arguments whose \<open>datasets\<close> is an array of entries that are neither \<open>undefined\<close>
  nor \<open>null\<close>, \<open>createLineChart\<close> and \<open>createBarChart\<close> return a configuration with
  one series per entry, in the same order, each with the \<open>data\<close> of its entry as it is.
  An entry that supplies a color (a truthy \<open>color\<close>, as \<open>||\<close> tests it) has that color in
  both color properties; the fixed default colors appear only for an entry without one
  (\<open>color\<close> absent or falsy).
\<close>

theorem line_and_bar_series:
  assumes args: "\<not> nullish args"
    and ds: "get_prop args ''datasets'' = JArr ds"
    and elems: "\<forall>d \<in> set ds. \<not> nullish d"
  shows "\<exists>line bar ls bs.
           createLineChart args = Inr line \<and> series_of line = JArr ls \<and>
           createBarChart args = Inr bar \<and> series_of bar = JArr bs \<and>
           length ls = length ds \<and> length bs = length ds \<and>
           (\<forall>i < length ds.
              get_prop (ls ! i) ''data'' = get_prop (ds ! i) ''data'' \<and>
              get_prop (bs ! i) ''data'' = get_prop (ds ! i) ''data'' \<and>
              (js_truthy (get_prop (ds ! i) ''color'') \<longrightarrow>
                 get_prop (ls ! i) ''borderColor'' = get_prop (ds ! i) ''color'' \<and>
                 get_prop (ls ! i) ''backgroundColor'' = get_prop (ds ! i) ''color'' \<and>
                 get_prop (bs ! i) ''backgroundColor'' = get_prop (ds ! i) ''color'' \<and>
                 get_prop (bs ! i) ''borderColor'' = get_prop (ds ! i) ''color'') \<and>
              (\<not> js_truthy (get_prop (ds ! i) ''color'') \<longrightarrow>
                 get_prop (ls ! i) ''borderColor'' = JStr ''rgb(75, 192, 192)'' \<and>
                 get_prop (ls ! i) ''backgroundColor'' = JStr ''rgba(75, 192, 192, 0.2)'' \<and>
                 get_prop (bs ! i) ''backgroundColor'' = JStr ''rgba(54, 162, 235, 0.5)'' \<and>
                 get_prop (bs ! i) ''borderColor'' = JStr ''rgb(54, 162, 235)''))"
proof -
  let ?l = "\<lambda>d. JObj
        [(''label'', get_prop d ''label''),
         (''data'', get_prop d ''data''),
         (''borderColor'', js_or (get_prop d ''color'') (JStr ''rgb(75, 192, 192)'')),
         (''backgroundColor'', js_or (get_prop d ''color'') (JStr ''rgba(75, 192, 192, 0.2)'')),
         (''tension'', JNum ''0.1'')]"
  let ?b = "\<lambda>d. JObj
        [(''label'', get_prop d ''label''),
         (''data'', get_prop d ''data''),
         (''backgroundColor'', js_or (get_prop d ''color'') (JStr ''rgba(54, 162, 235, 0.5)'')),
         (''borderColor'', js_or (get_prop d ''color'') (JStr ''rgb(54, 162, 235)'')),
         (''borderWidth'', JNum ''1'')]"
  have lm: "js_map line_series ds = Inr (map ?l ds)"
    using elems by (intro js_map_total) (simp add: line_series_def)
  have bm: "js_map bar_series ds = Inr (map ?b ds)"
    using elems by (intro js_map_total) (simp add: bar_series_def)
  have lc: "\<exists>line. createLineChart args = Inr line \<and> series_of line = JArr (map ?l ds)"
    using args by (simp add: createLineChart_def map_datasets_def ds lm series_of_def get_prop_JObj)
  have bc: "\<exists>bar. createBarChart args = Inr bar \<and> series_of bar = JArr (map ?b ds)"
    using args by (simp add: createBarChart_def map_datasets_def ds bm series_of_def get_prop_JObj)
  from lc obtain line where line: "createLineChart args = Inr line" "series_of line = JArr (map ?l ds)"
    by blast
  from bc obtain bar where bar: "createBarChart args = Inr bar" "series_of bar = JArr (map ?b ds)"
    by blast
  have each: "\<forall>i < length ds.
              get_prop (map ?l ds ! i) ''data'' = get_prop (ds ! i) ''data'' \<and>
              get_prop (map ?b ds ! i) ''data'' = get_prop (ds ! i) ''data'' \<and>
              (js_truthy (get_prop (ds ! i) ''color'') \<longrightarrow>
                 get_prop (map ?l ds ! i) ''borderColor'' = get_prop (ds ! i) ''color'' \<and>
                 get_prop (map ?l ds ! i) ''backgroundColor'' = get_prop (ds ! i) ''color'' \<and>
                 get_prop (map ?b ds ! i) ''backgroundColor'' = get_prop (ds ! i) ''color'' \<and>
                 get_prop (map ?b ds ! i) ''borderColor'' = get_prop (ds ! i) ''color'') \<and>
              (\<not> js_truthy (get_prop (ds ! i) ''color'') \<longrightarrow>
                 get_prop (map ?l ds ! i) ''borderColor'' = JStr ''rgb(75, 192, 192)'' \<and>
                 get_prop (map ?l ds ! i) ''backgroundColor'' = JStr ''rgba(75, 192, 192, 0.2)'' \<and>
                 get_prop (map ?b ds ! i) ''backgroundColor'' = JStr ''rgba(54, 162, 235, 0.5)'' \<and>
                 get_prop (map ?b ds ! i) ''borderColor'' = JStr ''rgb(54, 162, 235)'')"
    by (simp add: get_prop_JObj js_or_def)
  show ?thesis
    using line bar each by (intro exI [of _ line] exI [of _ bar] exI [of _ "map ?l ds"] exI [of _ "map ?b ds"]) simp
qed

text \<open>C8 at two series, the second with the color \<open>red\<close>.\<close>

theorem line_and_bar_series_witness:
  "\<not> nullish (JObj [(''title'', JStr ''T''), (''labels'', JArr [JStr ''a'', JStr ''b'']),
      (''datasets'', JArr [JObj [(''label'', JStr ''s1''), (''data'', JArr [JNum ''1'', JNum ''2''])],
                           JObj [(''label'', JStr ''s2''), (''data'', JArr [JNum ''3'', JNum ''4'']),
                                 (''color'', JStr ''red'')]])]) \<and>
   (\<exists>line bar ls bs.
      createLineChart (JObj [(''title'', JStr ''T''), (''labels'', JArr [JStr ''a'', JStr ''b'']),
        (''datasets'', JArr [JObj [(''label'', JStr ''s1''), (''data'', JArr [JNum ''1'', JNum ''2''])],
                             JObj [(''label'', JStr ''s2''), (''data'', JArr [JNum ''3'', JNum ''4'']),
                                   (''color'', JStr ''red'')]])]) = Inr line \<and>
      series_of line = JArr ls \<and>
      createBarChart (JObj [(''title'', JStr ''T''), (''labels'', JArr [JStr ''a'', JStr ''b'']),
        (''datasets'', JArr [JObj [(''label'', JStr ''s1''), (''data'', JArr [JNum ''1'', JNum ''2''])],
                             JObj [(''label'', JStr ''s2''), (''data'', JArr [JNum ''3'', JNum ''4'']),
                                   (''color'', JStr ''red'')]])]) = Inr bar \<and>
      series_of bar = JArr bs \<and>
      length ls = 2 \<and> length bs = 2 \<and>
      get_prop (ls ! 0) ''data'' = JArr [JNum ''1'', JNum ''2''] \<and>
      get_prop (bs ! 1) ''data'' = JArr [JNum ''3'', JNum ''4''] \<and>
      get_prop (ls ! 0) ''borderColor'' = JStr ''rgb(75, 192, 192)'' \<and>
      get_prop (ls ! 1) ''borderColor'' = JStr ''red'' \<and>
      get_prop (bs ! 0) ''backgroundColor'' = JStr ''rgba(54, 162, 235, 0.5)'' \<and>
      get_prop (bs ! 1) ''backgroundColor'' = JStr ''red'')"
proof -
  let ?d0 = "JObj [(''label'', JStr ''s1''), (''data'', JArr [JNum ''1'', JNum ''2''])]"
  let ?d1 = "JObj [(''label'', JStr ''s2''), (''data'', JArr [JNum ''3'', JNum ''4'']),
                   (''color'', JStr ''red'')]"
  let ?args = "JObj [(''title'', JStr ''T''), (''labels'', JArr [JStr ''a'', JStr ''b'']),
                     (''datasets'', JArr [?d0, ?d1])]"
  have a: "\<not> nullish ?args" by (simp add: nullish_def)
  have d: "get_prop ?args ''datasets'' = JArr [?d0, ?d1]" by (simp add: get_prop_JObj)
  have e: "\<forall>d \<in> set [?d0, ?d1]. \<not> nullish d" by (simp add: nullish_def)
  from line_and_bar_series [OF a d e]
  obtain line bar ls bs where r:
    "createLineChart ?args = Inr line" "series_of line = JArr ls"
    "createBarChart ?args = Inr bar" "series_of bar = JArr bs"
    "length ls = length [?d0, ?d1]" "length bs = length [?d0, ?d1]"
    and each: "\<forall>i < length [?d0, ?d1].
              get_prop (ls ! i) ''data'' = get_prop ([?d0, ?d1] ! i) ''data'' \<and>
              get_prop (bs ! i) ''data'' = get_prop ([?d0, ?d1] ! i) ''data'' \<and>
              (js_truthy (get_prop ([?d0, ?d1] ! i) ''color'') \<longrightarrow>
                 get_prop (ls ! i) ''borderColor'' = get_prop ([?d0, ?d1] ! i) ''color'' \<and>
                 get_prop (ls ! i) ''backgroundColor'' = get_prop ([?d0, ?d1] ! i) ''color'' \<and>
                 get_prop (bs ! i) ''backgroundColor'' = get_prop ([?d0, ?d1] ! i) ''color'' \<and>
                 get_prop (bs ! i) ''borderColor'' = get_prop ([?d0, ?d1] ! i) ''color'') \<and>
              (\<not> js_truthy (get_prop ([?d0, ?d1] ! i) ''color'') \<longrightarrow>
                 get_prop (ls ! i) ''borderColor'' = JStr ''rgb(75, 192, 192)'' \<and>
                 get_prop (ls ! i) ''backgroundColor'' = JStr ''rgba(75, 192, 192, 0.2)'' \<and>
                 get_prop (bs ! i) ''backgroundColor'' = JStr ''rgba(54, 162, 235, 0.5)'' \<and>
                 get_prop (bs ! i) ''borderColor'' = JStr ''rgb(54, 162, 235)'')"
    by blast
  from each [rule_format, of 0] each [rule_format, of 1]
  have vals: "get_prop (ls ! 0) ''data'' = JArr [JNum ''1'', JNum ''2'']"
    "get_prop (bs ! 1) ''data'' = JArr [JNum ''3'', JNum ''4'']"
    "get_prop (ls ! 0) ''borderColor'' = JStr ''rgb(75, 192, 192)''"
    "get_prop (ls ! 1) ''borderColor'' = JStr ''red''"
    "get_prop (bs ! 0) ''backgroundColor'' = JStr ''rgba(54, 162, 235, 0.5)''"
    "get_prop (bs ! 1) ''backgroundColor'' = JStr ''red''"
    by (simp_all add: get_prop_JObj)
  show ?thesis using a r vals by simp
qed

end
